theory Spec2Isabelle
  imports Complex_Main "HOL-Library.Word"
begin

section \<open>The stock chart component: src/stock-app-frontend/src/App.js\<close>

text \<open>
  The component \<open>App\<close> holds four pieces of state (\<open>useState\<close>, lines 41 to 50), an
  asynchronous click handler \<open>handleSearch\<close> (lines 54 to 91) and the change handler of
  the text input (line 111). The model keeps the state as a record and writes each
  statement of the handlers as a function on it. A handler also calls the platform
  (\<open>axios.get\<close>, \<open>console.error\<close>); every call it makes is appended to a trace, so
  that "no request is sent" and "the detail is only logged" are statements about the
  trace.
\<close>

subsection \<open>JavaScript values\<close>

text \<open>
  A JavaScript string is a sequence of 16-bit code units. \<open>ascii\<close> writes a literal of
  the source that is plain ASCII.
\<close>

type_synonym jsstring = "16 word list"

definition ascii :: "string \<Rightarrow> jsstring" where
  "ascii s = map (\<lambda>c. word_of_nat (of_char c)) s"

text \<open>
  The body of a response is what the JSON parser gives (or a string, when the body is
  not JSON). A finite number is carried as a rational; the only thing this program asks
  of a number is whether it is zero. An object is the list of its own properties, each
  name once.
\<close>

datatype jsval =
    JUndefined
  | JNull
  | JBool bool
  | JNum rat
  | JStr jsstring
  | JArr "jsval list"
  | JObj "(jsstring \<times> jsval) list"

text \<open>What a \<open>try\<close> block can catch here: the rejection of the request, or the
  TypeError of reading a property of \<open>null\<close> or \<open>undefined\<close>.\<close>

datatype thrown = Rejection jsval | TypeError

text \<open>The condition of an \<open>if\<close> and the operand of \<open>!\<close> are converted to a boolean.\<close>

fun truthy :: "jsval \<Rightarrow> bool" where
  "truthy JUndefined = False"
| "truthy JNull = False"
| "truthy (JBool b) = b"
| "truthy (JNum r) = (r \<noteq> 0)"
| "truthy (JStr s) = (s \<noteq> [])"
| "truthy (JArr xs) = True"
| "truthy (JObj kvs) = True"

text \<open>
  The expression \<open>response.data.error\<close> (lines 75 and 76): reading the property of
  \<open>null\<close> or \<open>undefined\<close> throws, an object gives the property's value or \<open>undefined\<close>
  when it has none of that name, and a boolean, a number, a string or an array has no
  property \<open>error\<close>.
\<close>

fun get_error :: "jsval \<Rightarrow> thrown + jsval" where
  "get_error JUndefined = Inl TypeError"
| "get_error JNull = Inl TypeError"
| "get_error (JObj kvs) =
     Inr (case map_of kvs (ascii ''error'') of None \<Rightarrow> JUndefined | Some v \<Rightarrow> v)"
| "get_error v = Inr JUndefined"

subsection \<open>State and platform calls\<close>

text \<open>The response object of axios, and how the promise of \<open>axios.get\<close> settles.\<close>

record response =
  status :: nat
  data :: jsval

datatype settled = Resolved response | Rejected jsval

datatype call =
    SetTicker jsstring
  | SetStockData jsval
  | SetLoading bool
  | SetError jsval
  | AxiosGet jsstring
  | ConsoleError jsstring thrown

text \<open>
  The four \<open>useState\<close> cells with their initial values (lines 41, 44, 47, 50). The spec
  calls \<open>stockData\<close> the series.
\<close>

record app =
  ticker :: jsstring
  stockData :: jsval
  loading :: bool
  error :: jsval
  trace :: "call list"

definition initial :: app where
  "initial = \<lparr>ticker = [], stockData = JNull, loading = False, error = JNull, trace = []\<rparr>"

definition setTicker :: "jsstring \<Rightarrow> app \<Rightarrow> app" where
  "setTicker v s = s\<lparr>ticker := v, trace := trace s @ [SetTicker v]\<rparr>"

definition setStockData :: "jsval \<Rightarrow> app \<Rightarrow> app" where
  "setStockData v s = s\<lparr>stockData := v, trace := trace s @ [SetStockData v]\<rparr>"

definition setLoading :: "bool \<Rightarrow> app \<Rightarrow> app" where
  "setLoading v s = s\<lparr>loading := v, trace := trace s @ [SetLoading v]\<rparr>"

definition setError :: "jsval \<Rightarrow> app \<Rightarrow> app" where
  "setError v s = s\<lparr>error := v, trace := trace s @ [SetError v]\<rparr>"

definition axios_get :: "jsstring \<Rightarrow> app \<Rightarrow> app" where
  "axios_get url s = s\<lparr>trace := trace s @ [AxiosGet url]\<rparr>"

definition console_error :: "jsstring \<Rightarrow> thrown \<Rightarrow> app \<Rightarrow> app" where
  "console_error label e s = s\<lparr>trace := trace s @ [ConsoleError label e]\<rparr>"


subsection \<open>The string literals of the source\<close>

text \<open>Line 57, fifteen code units of Japanese: "please enter a ticker code".\<close>

definition validation_message :: jsstring where
  "validation_message =
     [0x9298, 0x67C4, 0x30B3, 0x30FC, 0x30C9, 0x3092, 0x5165, 0x529B,
      0x3057, 0x3066, 0x304F, 0x3060, 0x3055, 0x3044, 0x3002]"

text \<open>Line 86: "fetching the data failed; please check that the API server is running".\<close>

definition fetch_failed_message :: jsstring where
  "fetch_failed_message =
     [0x30C7, 0x30FC, 0x30BF, 0x306E, 0x53D6, 0x5F97, 0x306B, 0x5931, 0x6557, 0x3057,
      0x307E, 0x3057, 0x305F, 0x3002, 0x0041, 0x0050, 0x0049, 0x30B5, 0x30FC, 0x30D0,
      0x30FC, 0x304C, 0x8D77, 0x52D5, 0x3057, 0x3066, 0x3044, 0x308B, 0x304B, 0x78BA,
      0x8A8D, 0x3057, 0x3066, 0x304F, 0x3060, 0x3055, 0x3044, 0x3002]"

text \<open>Line 72: the template literal, the ticker appended to a fixed prefix.\<close>

definition stock_data_url :: "jsstring \<Rightarrow> jsstring" where
  "stock_data_url t = ascii ''http://127.0.0.1:5000/api/stock_data/'' @ t"

subsection \<open>handleSearch\<close>

text \<open>
  An \<open>async\<close> function runs up to its \<open>await\<close> within the click, and the rest when
  the promise settles. \<open>handleSearch_begin\<close> is the first part (lines 56 to 72): it
  either returns (line 58) or is left awaiting the request to the given URL.
\<close>

datatype suspension = Returned | Awaiting jsstring

definition handleSearch_begin :: "app \<Rightarrow> suspension \<times> app" where
  "handleSearch_begin s =
     (if \<not> truthy (JStr (ticker s)) then
        (Returned, setError (JStr validation_message) s)
      else
        (Awaiting (stock_data_url (ticker s)),
         axios_get (stock_data_url (ticker s))
           (setStockData JNull (setError JNull (setLoading True s)))))"

text \<open>The \<open>catch\<close> block (lines 85 and 86).\<close>

definition handleSearch_catch :: "thrown \<Rightarrow> app \<Rightarrow> app" where
  "handleSearch_catch err s =
     setError (JStr fetch_failed_message)
       (console_error (ascii ''API request failed:'') err s)"

text \<open>
  The second part (lines 72 to 90), run on the state of that moment when the promise
  has settled: the rest of the \<open>try\<close> block or the \<open>catch\<close> block, then \<open>finally\<close>.
\<close>

definition handleSearch_settle :: "settled \<Rightarrow> app \<Rightarrow> app" where
  "handleSearch_settle r s =
     setLoading False
       (case r of
          Rejected e \<Rightarrow> handleSearch_catch (Rejection e) s
        | Resolved resp \<Rightarrow>
            (case get_error (data resp) of
               Inl t \<Rightarrow> handleSearch_catch t s
             | Inr v \<Rightarrow>
                 if truthy v then setError v s else setStockData (data resp) s))"

text \<open>
  A whole run of \<open>handleSearch\<close> with nothing else happening in between; \<open>r\<close> is
  how the request settles, if one is sent.
\<close>

definition handleSearch :: "settled \<Rightarrow> app \<Rightarrow> app" where
  "handleSearch r s =
     (case handleSearch_begin s of
        (Returned, s') \<Rightarrow> s'
      | (Awaiting url, s') \<Rightarrow> handleSearch_settle r s')"

subsection \<open>The text input\<close>

text \<open>
  \<open>String.prototype.toUpperCase\<close> belongs to the platform. ECMAScript defines it in
  three steps: the code units are read as code points (a leading surrogate followed by
  a trailing one is one code point, every other code unit stands for itself), each code
  point is replaced by its uppercase mapping of the Unicode character database, and the
  result is written as code units again. The mapping of one code point does not depend
  on its neighbours and may be several code points long.
\<close>

fun codepoints :: "jsstring \<Rightarrow> nat list" where
  "codepoints (c # d # cs) =
     (if 0xD800 \<le> c \<and> c \<le> 0xDBFF \<and> 0xDC00 \<le> d \<and> d \<le> 0xDFFF
      then (0x10000 + (unat c - 0xD800) * 0x400 + (unat d - 0xDC00)) # codepoints cs
      else unat c # codepoints (d # cs))"
| "codepoints [c] = [unat c]"
| "codepoints [] = []"

text \<open>The Basic Latin block: a to z (0x61 to 0x7A) become A to Z, and no other code
  unit below 0x80 changes. It is applied to code units below 0x80 only.\<close>

definition basic_latin_upper :: "16 word \<Rightarrow> 16 word" where
  "basic_latin_upper c = (if 0x61 \<le> c \<and> c \<le> 0x7A then c - 0x20 else c)"

text \<open>
  The Unicode tables are not part of the repository: \<open>unicode\<close> stands for them, giving
  the uppercase mapping of a code point from 0x80 on, written in code units.
\<close>

definition toUppercase :: "(nat \<Rightarrow> jsstring) \<Rightarrow> nat \<Rightarrow> jsstring" where
  "toUppercase unicode cp =
     (if cp < 0x80 then [basic_latin_upper (word_of_nat cp)] else unicode cp)"

definition toUpperCase :: "(nat \<Rightarrow> jsstring) \<Rightarrow> jsstring \<Rightarrow> jsstring" where
  "toUpperCase unicode s = concat (map (toUppercase unicode) (codepoints s))"

text \<open>Line 111: \<open>setTicker(e.target.value.toUpperCase())\<close>, with \<open>raw\<close> for
  \<open>e.target.value\<close>.\<close>

definition onChange :: "(nat \<Rightarrow> jsstring) \<Rightarrow> jsstring \<Rightarrow> app \<Rightarrow> app" where
  "onChange unicode raw s = setTicker (toUpperCase unicode raw) s"

text \<open>
  The states the component can be in: it starts in \<open>initial\<close>; the user edits the
  input, clicks the button, and a pending request settles.
\<close>

inductive reachable :: "(nat \<Rightarrow> jsstring) \<Rightarrow> app \<Rightarrow> bool"
  for unicode :: "nat \<Rightarrow> jsstring" where
  start: "reachable unicode initial"
| change: "reachable unicode s \<Longrightarrow> reachable unicode (onChange unicode raw s)"
| click: "reachable unicode s \<Longrightarrow> reachable unicode (snd (handleSearch_begin s))"
| settle: "reachable unicode s \<Longrightarrow> reachable unicode (handleSearch_settle r s)"

text \<open>
  An excerpt of the Unicode tables for the sample runs: e with acute accent (0xE9)
  becomes its capital (0xC9), sharp s (0xDF) becomes SS, and every other code point is
  written back as it is (one code unit, or a surrogate pair from 0x10000 on).
\<close>

definition utf16 :: "nat \<Rightarrow> jsstring" where
  "utf16 cp =
     (if cp \<le> 0xFFFF then [word_of_nat cp]
      else [word_of_nat (0xD800 + (cp - 0x10000) div 0x400),
            word_of_nat (0xDC00 + (cp - 0x10000) mod 0x400)])"

definition unicode_excerpt :: "nat \<Rightarrow> jsstring" where
  "unicode_excerpt cp =
     (if cp = 0xE9 then [0xC9] else if cp = 0xDF then [0x53, 0x53] else utf16 cp)"

text \<open>What uppercasing with this excerpt does to one code unit (used in proofs only).\<close>

definition excerpt_unit :: "16 word \<Rightarrow> jsstring" where
  "excerpt_unit c =
     (if c = 0xE9 then [0xC9] else if c = 0xDF then [0x53, 0x53] else [basic_latin_upper c])"

subsection \<open>The message area\<close>


subsection \<open>Sample runs\<close>

text \<open>The user types "aapl".\<close>

definition typed_aapl :: app where
  "typed_aapl = onChange unicode_excerpt (ascii ''aapl'') initial"

text \<open>The user types one space.\<close>

definition typed_space :: app where
  "typed_space = onChange unicode_excerpt [0x20] initial"

text \<open>The two points of the spec's example response.\<close>

definition two_points :: jsval where
  "two_points =
     JArr [JObj [(ascii ''date'', JStr (ascii ''2024-01-01'')), (ascii ''close'', JNum 100)],
           JObj [(ascii ''date'', JStr (ascii ''2024-01-02'')), (ascii ''close'', JNum 102)]]"

text \<open>A search for AAPL has drawn its chart, and the user then empties the input.\<close>

definition chart_then_cleared :: app where
  "chart_then_cleared =
     onChange unicode_excerpt []
       (handleSearch (Resolved \<lparr>status = 200, data = two_points\<rparr>) typed_aapl)"

section \<open>Properties\<close>

subsection \<open>Auxiliary facts\<close>

lemmas setter_defs =
  setTicker_def setStockData_def setLoading_def setError_def axios_get_def
  console_error_def


lemmas sample_defs =
  typed_aapl_def typed_space_def chart_then_cleared_def two_points_def onChange_def
  toUpperCase_def toUppercase_def basic_latin_upper_def ascii_def initial_def

lemma ticker_begin: "ticker (snd (handleSearch_begin s)) = ticker s"
  by (simp add: handleSearch_begin_def setter_defs)

lemma ticker_settle: "ticker (handleSearch_settle r s) = ticker s"
  by (simp add: handleSearch_settle_def handleSearch_catch_def setter_defs
      split: settled.split sum.split)

lemma messages_nonempty: "validation_message \<noteq> []" "fetch_failed_message \<noteq> []"
  by (simp_all add: validation_message_def fetch_failed_message_def)

text \<open>Neither part of \<open>handleSearch\<close> touches the ticker, so every ticker that is ever
  stored is the empty initial one or a result of \<open>upper\<close>.\<close>

lemma reachable_ticker:
  "reachable unicode s \<Longrightarrow> ticker s = [] \<or> (\<exists>raw. ticker s = toUpperCase unicode raw)"
proof (induction rule: reachable.induct)
  case start
  show ?case by (simp add: initial_def)
next
  case (change s raw)
  show ?case by (auto simp: onChange_def setTicker_def)
next
  case (click s)
  then show ?case by (simp add: ticker_begin)
next
  case (settle s r)
  then show ?case by (simp add: ticker_settle)
qed

text \<open>On a string of code units below 0x80 the Unicode tables play no part.\<close>

lemma codepoints_ascii:
  "\<forall>u\<in>set s. u < 0x80 \<Longrightarrow> codepoints s = map unat s"
proof (induction s rule: codepoints.induct)
  case (1 c d cs)
  from 1(3) have "c < 0x80" by simp
  then have "\<not> 0xD800 \<le> c" by (simp add: word_le_nat_alt word_less_nat_alt)
  with 1 show ?case by simp
qed simp_all

lemma toUpperCase_basic_latin:
  assumes "\<forall>u\<in>set s. u < 0x80"
  shows "toUpperCase unicode s = map basic_latin_upper s"
proof -
  have "toUppercase unicode (unat u) = [basic_latin_upper u]" if "u < 0x80" for u :: "16 word"
    using that by (simp add: toUppercase_def word_less_nat_alt)
  with assms have "map (toUppercase unicode) (map unat s) = map (\<lambda>u. [basic_latin_upper u]) s"
    by simp
  then show ?thesis
    by (simp add: toUpperCase_def codepoints_ascii [OF assms] del: map_map) 
qed

lemma basic_latin_upper_not_lower:
  "\<not> (0x61 \<le> basic_latin_upper c \<and> basic_latin_upper c \<le> 0x7A)"
  unfolding basic_latin_upper_def by (auto simp: word_le_nat_alt unat_sub)

lemma pair_back:
  assumes "0xD800 \<le> c" "c \<le> 0xDBFF" "0xDC00 \<le> d" "d \<le> 0xDFFF"
  shows "unicode_excerpt (0x10000 + (unat c - 0xD800) * 0x400 + (unat d - 0xDC00)) = [c, d]"
proof -
  from assms have c: "0xD800 \<le> unat c" "unat c \<le> 0xDBFF" and d: "0xDC00 \<le> unat d" "unat d \<le> 0xDFFF"
    by (simp_all add: word_le_nat_alt)
  define a b where "a = unat c - 0xD800" and "b = unat d - 0xDC00"
  with c d have ab: "b < 0x400" "unat c = 0xD800 + a" "unat d = 0xDC00 + b" by simp_all
  have "(a * 0x400 + b) div 0x400 = a" "(a * 0x400 + b) mod 0x400 = b"
    using ab(1) by simp_all
  then have "utf16 (0x10000 + a * 0x400 + b) = [word_of_nat (unat c), word_of_nat (unat d)]"
    by (simp add: utf16_def ab)
  then show ?thesis
    by (simp add: unicode_excerpt_def a_def b_def)
qed

lemma single_back:
  "toUppercase unicode_excerpt (unat c) = excerpt_unit c"
proof -
  have "unat c = 0xE9 \<longleftrightarrow> c = 0xE9" "unat c = 0xDF \<longleftrightarrow> c = 0xDF"
    by (simp_all add: word_unat_eq_iff)
  moreover have "unat c \<le> 0xFFFF" using unsigned_less [of c, where ?'a = nat] by simp
  moreover have "unat c < 0x80 \<Longrightarrow> c \<noteq> 0xE9 \<and> c \<noteq> 0xDF" by auto
  moreover have "\<not> unat c < 0x80 \<Longrightarrow> basic_latin_upper c = c"
    by (simp add: basic_latin_upper_def word_le_nat_alt)
  ultimately show ?thesis
    by (auto simp add: toUppercase_def unicode_excerpt_def excerpt_unit_def utf16_def)
qed

lemma surrogate_unit:
  "0xD800 \<le> c \<Longrightarrow> excerpt_unit c = [c]"
  by (auto simp: excerpt_unit_def basic_latin_upper_def word_le_nat_alt)

lemma toUpperCase_excerpt: "toUpperCase unicode_excerpt s = concat (map excerpt_unit s)"
proof (induction s rule: codepoints.induct)
  case (1 c d cs)
  show ?case
  proof (cases "0xD800 \<le> c \<and> c \<le> 0xDBFF \<and> 0xDC00 \<le> d \<and> d \<le> 0xDFFF")
    case True
    then have "0xD800 \<le> d" by (simp add: word_le_nat_alt)
    with True have u: "excerpt_unit c = [c]" "excerpt_unit d = [d]"
      by (simp_all add: surrogate_unit)
    have big: "\<not> 0x10000 + (unat c - 0xD800) * 0x400 + (unat d - 0xDC00) < (0x80::nat)" by simp
    from True 1(1) have "toUpperCase unicode_excerpt cs = concat (map excerpt_unit cs)" by simp
    with True u show ?thesis
      by (simp add: toUpperCase_def toUppercase_def pair_back)
  next
    case False
    with 1(2) have "toUpperCase unicode_excerpt (d # cs) = concat (map excerpt_unit (d # cs))"
      by simp
    moreover from False have "codepoints (c # d # cs) = unat c # codepoints (d # cs)"
      by auto
    ultimately show ?thesis
      by (simp add: toUpperCase_def single_back del: codepoints.simps)
  qed
next
  case (2 c)
  show ?case by (simp add: toUpperCase_def single_back)
next
  case 3
  show ?case by (simp add: toUpperCase_def)
qed

lemma excerpt_unit_idem: "concat (map excerpt_unit (excerpt_unit c)) = excerpt_unit c"
proof -
  have "basic_latin_upper (basic_latin_upper c) = basic_latin_upper c"
    unfolding basic_latin_upper_def by (auto simp: word_le_nat_alt unat_sub)
  moreover have "basic_latin_upper c = 0xE9 \<Longrightarrow> c = 0xE9" "basic_latin_upper c = 0xDF \<Longrightarrow> c = 0xDF"
    unfolding basic_latin_upper_def by (auto simp: word_le_nat_alt unat_sub split: if_splits)
  ultimately show ?thesis
    by (auto simp: excerpt_unit_def) (simp_all add: basic_latin_upper_def)
qed

lemma toUpperCase_excerpt_idem:
  "toUpperCase unicode_excerpt (toUpperCase unicode_excerpt x) = toUpperCase unicode_excerpt x"
  unfolding toUpperCase_excerpt
  by (induction x) (simp_all add: excerpt_unit_idem)

subsection \<open>Validation\<close>

text \<open>
  C1, as the spec states it, fails: a ticker of one space is not empty for the guard of
  line 56, so the request is sent and \<open>loading\<close> becomes true. And the message of line 57
  is not the text "ticker code required".
\<close>

theorem whitespace_ticker_counterexample:
  "ticker typed_space = [0x20]
   \<and> fst (handleSearch_begin typed_space) = Awaiting (stock_data_url [0x20])
   \<and> loading (snd (handleSearch_begin typed_space)) = True
   \<and> error (snd (handleSearch_begin typed_space)) = JNull
   \<and> trace (snd (handleSearch_begin typed_space)) =
       [SetTicker [0x20], SetLoading True, SetError JNull, SetStockData JNull,
        AxiosGet (stock_data_url [0x20])]
   \<and> error (snd (handleSearch_begin initial)) \<noteq> JStr (ascii ''ticker code required'')"
  by (simp add: sample_defs handleSearch_begin_def setter_defs validation_message_def)

text \<open>
  C1, amended: when the ticker is the empty string, \<open>handleSearch\<close> returns within the
  click; the only call it makes is \<open>setError\<close> with the message of line 57, so no
  request is sent and \<open>loading\<close> keeps its value.
\<close>

theorem empty_ticker_validation:
  assumes "ticker s = []"
  shows "handleSearch_begin s = (Returned, setError (JStr validation_message) s)
       \<and> handleSearch r s = setError (JStr validation_message) s
       \<and> error (handleSearch r s) = JStr validation_message
       \<and> loading (handleSearch r s) = loading s
       \<and> trace (handleSearch r s) = trace s @ [SetError (JStr validation_message)]"
  using assms by (simp add: handleSearch_def handleSearch_begin_def setError_def)

theorem empty_ticker_validation_witness:
  "ticker initial = []
   \<and> handleSearch_begin initial = (Returned, setError (JStr validation_message) initial)
   \<and> error (handleSearch (Rejected JNull) initial) = JStr validation_message
   \<and> loading (handleSearch (Rejected JNull) initial) = False
   \<and> trace (handleSearch (Rejected JNull) initial) = [SetError (JStr validation_message)]"
proof -
  have e: "ticker initial = []" by (simp add: initial_def)
  have l: "loading initial = False \<and> trace initial = []" by (simp add: initial_def)
  from empty_ticker_validation [OF e, of "Rejected JNull"] e l show ?thesis
    by (simp add: setError_def)
qed

subsection \<open>Handling the response\<close>








text \<open>
  C5: with a non-empty ticker, \<open>handleSearch\<close> sets \<open>loading\<close> to true within the
  click and is then awaiting the request; however the request settles, and on whatever
  state, the second part ends with \<open>loading\<close> false.
\<close>

theorem loading_set_then_cleared:
  assumes "ticker s \<noteq> []"
  shows "fst (handleSearch_begin s) = Awaiting (stock_data_url (ticker s))
       \<and> loading (snd (handleSearch_begin s)) = True
       \<and> loading (handleSearch_settle r (snd (handleSearch_begin s))) = False
       \<and> loading (handleSearch_settle r s') = False
       \<and> loading (handleSearch r s) = False
       \<and> last (trace (handleSearch r s)) = SetLoading False"
  using assms
  by (simp add: handleSearch_def handleSearch_begin_def handleSearch_settle_def setter_defs)

theorem loading_set_then_cleared_witness:
  "ticker typed_aapl \<noteq> []
   \<and> loading (snd (handleSearch_begin typed_aapl)) = True
   \<and> loading (handleSearch (Resolved \<lparr>status = 200, data = two_points\<rparr>) typed_aapl) = False
   \<and> loading (handleSearch_settle (Rejected JNull) (snd (handleSearch_begin typed_aapl)))
       = False"
proof -
  have t: "ticker typed_aapl \<noteq> []" by (simp add: sample_defs setter_defs)
  from loading_set_then_cleared [OF t, of "Resolved \<lparr>status = 200, data = two_points\<rparr>"]
       loading_set_then_cleared [OF t, of "Rejected JNull"] t
  show ?thesis by simp
qed

text \<open>
  C6: with a non-empty ticker, the part of \<open>handleSearch\<close> that runs within the click
  sets \<open>loading\<close> to true and clears \<open>error\<close> and \<open>stockData\<close>, and does so before
  it sends the request: whatever an earlier search left is gone while the request is
  pending.
\<close>

theorem pre_request_reset:
  assumes "ticker s \<noteq> []"
  shows "loading (snd (handleSearch_begin s)) = True
       \<and> error (snd (handleSearch_begin s)) = JNull
       \<and> stockData (snd (handleSearch_begin s)) = JNull
       \<and> fst (handleSearch_begin s) = Awaiting (stock_data_url (ticker s))
       \<and> trace (snd (handleSearch_begin s)) =
           trace s @ [SetLoading True, SetError JNull, SetStockData JNull,
                      AxiosGet (stock_data_url (ticker s))]"
  using assms by (simp add: handleSearch_begin_def setter_defs)

theorem pre_request_reset_witness:
  "ticker chart_then_cleared = [] \<and> stockData chart_then_cleared = two_points
   \<and> ticker (onChange unicode_excerpt (ascii ''msft'') chart_then_cleared) \<noteq> []
   \<and> stockData (snd (handleSearch_begin
         (onChange unicode_excerpt (ascii ''msft'') chart_then_cleared))) = JNull
   \<and> error (snd (handleSearch_begin
         (onChange unicode_excerpt (ascii ''msft'') chart_then_cleared))) = JNull
   \<and> loading (snd (handleSearch_begin
         (onChange unicode_excerpt (ascii ''msft'') chart_then_cleared))) = True"
proof -
  have typed: "ticker (onChange unicode_excerpt (ascii ''msft'') chart_then_cleared) \<noteq> []"
    by (simp add: onChange_def setTicker_def toUpperCase_def toUppercase_def ascii_def)
  have before: "ticker chart_then_cleared = [] \<and> stockData chart_then_cleared = two_points"
    by (simp add: chart_then_cleared_def typed_aapl_def onChange_def handleSearch_def
        handleSearch_begin_def handleSearch_settle_def setter_defs toUpperCase_def
        toUppercase_def basic_latin_upper_def ascii_def two_points_def)
  from pre_request_reset [OF typed] before typed show ?thesis
    by simp
qed




subsection \<open>The text input\<close>

text \<open>
  C8: for every raw input and whatever the Unicode tables say, the change handler stores
  the uppercasing of the input. On input of code units below 0x80 that is the Basic
  Latin uppercasing, unit by unit, and no letter a to z is left; "aapl" is stored as
  "AAPL". Every ticker the component ever holds is the empty initial one or the result of
  an uppercasing, hence uppercase in the sense of the Unicode standard (uppercasing it
  changes nothing) whenever uppercasing twice is uppercasing once.
\<close>

theorem ticker_is_uppercased:
  "ticker (onChange unicode raw s) = toUpperCase unicode raw
   \<and> ((\<forall>u\<in>set raw. u < 0x80) \<longrightarrow>
        ticker (onChange unicode raw s) = map basic_latin_upper raw
      \<and> (\<forall>u\<in>set (ticker (onChange unicode raw s)). \<not> (0x61 \<le> u \<and> u \<le> 0x7A)))
   \<and> ticker (onChange unicode (ascii ''aapl'') s) = ascii ''AAPL''
   \<and> (reachable unicode s' \<longrightarrow>
        ticker s' = [] \<or> (\<exists>x. ticker s' = toUpperCase unicode x))
   \<and> ((\<forall>x. toUpperCase unicode (toUpperCase unicode x) = toUpperCase unicode x)
        \<and> reachable unicode s'
      \<longrightarrow> toUpperCase unicode (ticker s') = ticker s')"
proof -
  have stored: "ticker (onChange unicode raw s) = toUpperCase unicode raw"
    by (simp add: onChange_def setTicker_def)
  have latin: "(\<forall>u\<in>set raw. u < 0x80) \<longrightarrow>
        ticker (onChange unicode raw s) = map basic_latin_upper raw
      \<and> (\<forall>u\<in>set (ticker (onChange unicode raw s)). \<not> (0x61 \<le> u \<and> u \<le> 0x7A))"
    using basic_latin_upper_not_lower
    by (auto simp add: stored toUpperCase_basic_latin)
  have aapl: "ticker (onChange unicode (ascii ''aapl'') s) = ascii ''AAPL''"
    by (simp add: onChange_def setTicker_def toUpperCase_def toUppercase_def
        basic_latin_upper_def ascii_def)
  have origin: "reachable unicode s' \<longrightarrow>
        ticker s' = [] \<or> (\<exists>x. ticker s' = toUpperCase unicode x)"
    using reachable_ticker [of unicode s'] by blast
  have empty: "toUpperCase unicode [] = []"
    by (simp add: toUpperCase_def)
  have fixed: "(\<forall>x. toUpperCase unicode (toUpperCase unicode x) = toUpperCase unicode x)
        \<and> reachable unicode s'
      \<longrightarrow> toUpperCase unicode (ticker s') = ticker s'"
    using reachable_ticker [of unicode s'] empty by auto
  from stored latin aapl origin fixed show ?thesis
    by (intro conjI)
qed

theorem ticker_is_uppercased_witness:
  "list_all (\<lambda>u. u < 0x80) (ascii ''msft'')
   \<and> ticker (onChange unicode_excerpt (ascii ''msft'') initial) = ascii ''MSFT''
   \<and> ticker typed_aapl = ascii ''AAPL''
   \<and> (\<forall>x. toUpperCase unicode_excerpt (toUpperCase unicode_excerpt x)
            = toUpperCase unicode_excerpt x)
   \<and> reachable unicode_excerpt (onChange unicode_excerpt [0xE9, 0xDF] typed_aapl)
   \<and> ticker (onChange unicode_excerpt [0xE9, 0xDF] typed_aapl) = [0xC9, 0x53, 0x53]
   \<and> toUpperCase unicode_excerpt (ticker (onChange unicode_excerpt [0xE9, 0xDF] typed_aapl))
       = ticker (onChange unicode_excerpt [0xE9, 0xDF] typed_aapl)"
proof -
  have m: "\<forall>u\<in>set (ascii ''msft''). u < 0x80"
    by (simp add: ascii_def)
  have i: "\<forall>x. toUpperCase unicode_excerpt (toUpperCase unicode_excerpt x)
            = toUpperCase unicode_excerpt x"
    by (simp add: toUpperCase_excerpt_idem)
  have r: "reachable unicode_excerpt (onChange unicode_excerpt [0xE9, 0xDF] typed_aapl)"
    unfolding typed_aapl_def
    by (intro reachable.change reachable.start)
  have msft: "ticker (onChange unicode_excerpt (ascii ''msft'') initial)
      = map basic_latin_upper (ascii ''msft'')"
    using ticker_is_uppercased [of unicode_excerpt "ascii ''msft''" initial] m by blast
  have aapl: "ticker (onChange unicode_excerpt (ascii ''aapl'') initial) = ascii ''AAPL''"
    using ticker_is_uppercased [of unicode_excerpt _ initial] by blast
  have sharp: "ticker (onChange unicode_excerpt [0xE9, 0xDF] typed_aapl)
      = toUpperCase unicode_excerpt [0xE9, 0xDF]"
    using ticker_is_uppercased [of unicode_excerpt "[0xE9, 0xDF]" typed_aapl] by blast
  have fixed: "toUpperCase unicode_excerpt
        (ticker (onChange unicode_excerpt [0xE9, 0xDF] typed_aapl))
       = ticker (onChange unicode_excerpt [0xE9, 0xDF] typed_aapl)"
    using ticker_is_uppercased [of unicode_excerpt _ _
        "onChange unicode_excerpt [0xE9, 0xDF] typed_aapl"] i r
    by blast
  have both: "toUpperCase unicode_excerpt [0xE9, 0xDF] = [0xC9, 0x53, 0x53]"
    by (simp add: toUpperCase_def toUppercase_def unicode_excerpt_def)
  have upper: "map basic_latin_upper (ascii ''msft'') = ascii ''MSFT''"
    by (simp add: basic_latin_upper_def ascii_def)
  from m i r fixed show ?thesis
    by (simp add: msft upper aapl [folded typed_aapl_def] sharp both list_all_iff)
qed

subsection \<open>A body that is null or undefined\<close>



subsection \<open>Frame\<close>

text \<open>
  C10: \<open>handleSearch\<close> leaves the ticker as it was, in the whole run and in each of
  its two parts.
\<close>

theorem handleSearch_keeps_ticker:
  "ticker (handleSearch r s) = ticker s
   \<and> ticker (snd (handleSearch_begin s)) = ticker s
   \<and> ticker (handleSearch_settle r s) = ticker s"
  by (simp add: handleSearch_def ticker_begin ticker_settle split: prod.split suspension.split)
     (auto simp: handleSearch_begin_def setter_defs split: if_splits)

end
